theory Spec2Isabelle
  imports Main "HOL-Library.AList"
begin

section \<open>JSON values as the handlers see them\<close>

text \<open>
  The server keeps two JSON documents on disk and every handler works on values that
  \<^verbatim>\<open>JSON.parse\<close> produced. The embedding works on those values: a file holds the value
  that \<^verbatim>\<open>readDB\<close> would return for it, and \<^verbatim>\<open>writeDB\<close> followed by \<^verbatim>\<open>readDB\<close> gives
  back the value written (the serialiser and parser of the runtime are taken as given).
  Numbers are integers here; no handler computes with them: their truthiness (zero is
  falsy) is inspected, and the export prints them through the runtime. A string is the
  list of its characters; where the code goes over the code units of a string, the
  runtime gives them. An object is the list of its members; it stands for the
  JavaScript object that holds each key once, with the value of the key's first
  occurrence (\<^const>\<open>map_of\<close>).
\<close>

datatype json =
    JNull
  | JBool bool
  | JNum int
  | JStr string
  | JArr "json list"
  | JObj "(string \<times> json) list"

datatype js_error = ReadError | TypeError | SyntaxError

text \<open>\<^verbatim>\<open>!!v\<close> for a JSON value; \<^verbatim>\<open>undefined\<close> is \<^const>\<open>None\<close>.\<close>

fun truthy :: "json \<Rightarrow> bool" where
  "truthy JNull = False"
| "truthy (JBool b) = b"
| "truthy (JNum n) = (n \<noteq> 0)"
| "truthy (JStr s) = (s \<noteq> [])"
| "truthy (JArr xs) = True"
| "truthy (JObj kvs) = True"

text \<open>\<^verbatim>\<open>!v\<close> for what a property read gives.\<close>

definition falsy :: "json option \<Rightarrow> bool" where
  "falsy v = (case v of None \<Rightarrow> True | Some x \<Rightarrow> \<not> truthy x)"

text \<open>
  The property read \<^verbatim>\<open>a.k\<close> for the keys the handlers use (\<^verbatim>\<open>id\<close>, \<^verbatim>\<open>settings\<close>,
  \<^verbatim>\<open>applicants\<close>, \<^verbatim>\<open>FullName\<close>, \<^verbatim>\<open>Documents\<close>, \<^verbatim>\<open>url\<close>, \<^verbatim>\<open>name\<close>, ...): reading a property of
  \<^verbatim>\<open>null\<close> throws a TypeError, an object gives its own member or \<^verbatim>\<open>undefined\<close>, and
  a number, boolean, string or array has none of these keys.
\<close>

fun get_prop :: "json \<Rightarrow> string \<Rightarrow> js_error + json option" where
  "get_prop JNull k = Inl TypeError"
| "get_prop (JObj kvs) k = Inr (map_of kvs k)"
| "get_prop v k = Inr None"

text \<open>Decimal digits of an array index, for the keys of a spread array.\<close>

function show_nat :: "nat \<Rightarrow> string" where
  "show_nat n =
     (if n < 10 then [''0123456789'' ! n]
      else show_nat (n div 10) @ [''0123456789'' ! (n mod 10)])"
  by pat_completeness auto
termination
  by (relation "measure id") auto

text \<open>
  The own enumerable properties that \<^verbatim>\<open>{...v}\<close> copies: the members of an object
  (each key once), the indexed elements of an array, the indexed characters of a string,
  nothing for \<^verbatim>\<open>null\<close>, a number or a boolean.
\<close>

fun own_props :: "json \<Rightarrow> (string \<times> json) list" where
  "own_props (JObj kvs) = AList.clearjunk kvs"
| "own_props (JArr xs) = zip (map show_nat [0..<length xs]) xs"
| "own_props (JStr s) = zip (map show_nat [0..<length s]) (map (\<lambda>c. JStr [c]) s)"
| "own_props v = []"

text \<open>
  \<^verbatim>\<open>{ ...target, ...src }\<close>: the properties of \<^verbatim>\<open>src\<close> are assigned one after the other
  onto the members collected so far; an existing key keeps its place and takes the new
  value, a new key is appended. The list keeps the order of assignment; JavaScript
  enumerates integer-like keys before the others, which shows in the text of the file
  only. The properties below read members through \<^const>\<open>map_of\<close>.
\<close>

definition spread :: "(string \<times> json) list \<Rightarrow> json \<Rightarrow> (string \<times> json) list" where
  "spread target src = fold (\<lambda>(k, v). AList.update k v) (own_props src) target"

section \<open>The document store\<close>

text \<open>
  \<^verbatim>\<open>data/settings.json\<close> and \<^verbatim>\<open>data/applicants.json\<close>. \<^const>\<open>None\<close> is a file that is
  missing or does not hold JSON, for which \<^verbatim>\<open>readDB\<close> rejects. \<^verbatim>\<open>writeDB\<close> replaces the
  whole file; the disk is taken to accept the write.
\<close>

record store =
  settings_file :: "json option"
  applicants_file :: "json option"

definition readDB :: "json option \<Rightarrow> js_error + json" where
  "readDB f = (case f of None \<Rightarrow> Inl ReadError | Some v \<Rightarrow> Inr v)"

text \<open>
  What a handler sends: \<^verbatim>\<open>res.status(n).json(v)\<close>, the backup attachment (the
  document that is serialised into it) or the zip archive (its entries in the order
  they were queued: appended text with its name, or a file on disk with its name).
\<close>

datatype entry =
    Append string string
  | File string string

datatype reply =
    Json nat json
  | Backup json
  | Zip "entry list"

definition err :: "string \<Rightarrow> json" where
  "err msg = JObj [(''error'', JStr msg)]"

definition msg :: "string \<Rightarrow> json" where
  "msg m = JObj [(''message'', JStr m)]"

section \<open>Settings registry\<close>

text \<open>\<^verbatim>\<open>GET /api/settings\<close>\<close>

definition get_settings :: "store \<Rightarrow> reply" where
  "get_settings st =
     (case readDB (settings_file st) of
        Inl e \<Rightarrow> Json 500 (err ''Failed to read settings.'')
      | Inr settings \<Rightarrow> Json 200 settings)"

text \<open>\<^verbatim>\<open>POST /api/settings\<close>\<close>

definition post_settings :: "store \<Rightarrow> json \<Rightarrow> store \<times> reply" where
  "post_settings st body = (st\<lparr>settings_file := Some body\<rparr>, Json 200 body)"

section \<open>Applicant registry\<close>

text \<open>\<^verbatim>\<open>GET /api/applicants\<close>\<close>

definition get_applicants :: "store \<Rightarrow> reply" where
  "get_applicants st =
     (case readDB (applicants_file st) of
        Inl e \<Rightarrow> Json 500 (err ''Failed to read applicants.'')
      | Inr applicants \<Rightarrow> Json 200 applicants)"

text \<open>\<^verbatim>\<open>applicants.unshift(x)\<close>: only an array has the method.\<close>

fun unshift :: "json \<Rightarrow> json \<Rightarrow> js_error + json" where
  "unshift x (JArr xs) = Inr (JArr (x # xs))"
| "unshift x v = Inl TypeError"

text \<open>
  \<^verbatim>\<open>POST /api/applicants\<close>. The first argument is the value that
  \<^verbatim>\<open>crypto.randomUUID()\<close> returns for this request.
\<close>

definition post_applicant :: "string \<Rightarrow> store \<Rightarrow> json \<Rightarrow> store \<times> reply" where
  "post_applicant uuid st body =
     (case readDB (applicants_file st) of
        Inl e \<Rightarrow> (st, Json 500 (err ''Failed to add applicant.''))
      | Inr applicants \<Rightarrow>
          (let newApplicant = JObj (spread [(''id'', JStr uuid)] body) in
           case unshift newApplicant applicants of
             Inl e \<Rightarrow> (st, Json 500 (err ''Failed to add applicant.''))
           | Inr applicants' \<Rightarrow>
               (st\<lparr>applicants_file := Some applicants'\<rparr>, Json 201 newApplicant)))"

text \<open>
  \<^verbatim>\<open>applicants.findIndex(a => a.id === id)\<close> on the elements of an array: the first
  index whose element has the string \<^verbatim>\<open>id\<close> as its id, \<^const>\<open>None\<close> for -1; reading
  the id of a \<^verbatim>\<open>null\<close> element met on the way throws.
\<close>

fun findIndex_id :: "string \<Rightarrow> json list \<Rightarrow> js_error + nat option" where
  "findIndex_id i [] = Inr None"
| "findIndex_id i (a # as) =
     (case get_prop a ''id'' of
        Inl e \<Rightarrow> Inl e
      | Inr v \<Rightarrow>
          if v = Some (JStr i) then Inr (Some 0)
          else (case findIndex_id i as of
                  Inl e \<Rightarrow> Inl e
                | Inr None \<Rightarrow> Inr None
                | Inr (Some n) \<Rightarrow> Inr (Some (Suc n))))"

text \<open>\<^verbatim>\<open>PUT /api/applicants/:id\<close>\<close>

definition put_applicant :: "store \<Rightarrow> string \<Rightarrow> json \<Rightarrow> store \<times> reply" where
  "put_applicant st i body =
     (case readDB (applicants_file st) of
        Inl e \<Rightarrow> (st, Json 500 (err ''Failed to update applicant.''))
      | Inr (JArr xs) \<Rightarrow>
          (case findIndex_id i xs of
             Inl e \<Rightarrow> (st, Json 500 (err ''Failed to update applicant.''))
           | Inr None \<Rightarrow> (st, Json 404 (err ''Applicant not found.''))
           | Inr (Some index) \<Rightarrow>
               (let updatedApplicant = JObj (spread (spread [] (xs ! index)) body) in
                (st\<lparr>applicants_file := Some (JArr (xs[index := updatedApplicant]))\<rparr>,
                 Json 200 updatedApplicant)))
      | Inr v \<Rightarrow> (st, Json 500 (err ''Failed to update applicant.'')))"

text \<open>
  \<^verbatim>\<open>applicants.filter(a => p(a.id))\<close> on the elements of an array: every element is
  visited, so a \<^verbatim>\<open>null\<close> element throws wherever it stands.
\<close>

fun filter_id :: "(json option \<Rightarrow> bool) \<Rightarrow> json list \<Rightarrow> js_error + json list" where
  "filter_id p [] = Inr []"
| "filter_id p (a # as) =
     (case get_prop a ''id'' of
        Inl e \<Rightarrow> Inl e
      | Inr v \<Rightarrow>
          (case filter_id p as of
             Inl e \<Rightarrow> Inl e
           | Inr rest \<Rightarrow> Inr (if p v then a # rest else rest)))"

text \<open>\<^verbatim>\<open>DELETE /api/applicants/:id\<close>\<close>

definition delete_applicant :: "store \<Rightarrow> string \<Rightarrow> store \<times> reply" where
  "delete_applicant st i =
     (case readDB (applicants_file st) of
        Inl e \<Rightarrow> (st, Json 500 (err ''Failed to delete applicant.''))
      | Inr (JArr xs) \<Rightarrow>
          (case filter_id (\<lambda>v. v \<noteq> Some (JStr i)) xs of
             Inl e \<Rightarrow> (st, Json 500 (err ''Failed to delete applicant.''))
           | Inr ys \<Rightarrow>
               if length ys = length xs then (st, Json 404 (err ''Applicant not found.''))
               else (st\<lparr>applicants_file := Some (JArr ys)\<rparr>,
                     Json 200 (msg ''Applicant deleted successfully.'')))
      | Inr v \<Rightarrow> (st, Json 500 (err ''Failed to delete applicant.'')))"

section \<open>Import\<close>

text \<open>
  \<^verbatim>\<open>POST /api/import\<close> of \<^verbatim>\<open>server.js\<close>: the request body is the document.
\<close>

definition import_json :: "store \<Rightarrow> json \<Rightarrow> store \<times> reply" where
  "import_json st body =
     (case get_prop body ''settings'' of
        Inl e \<Rightarrow> (st, Json 500 (err ''Failed to import data.''))
      | Inr settings \<Rightarrow>
          (case get_prop body ''applicants'' of
             Inl e \<Rightarrow> (st, Json 500 (err ''Failed to import data.''))
           | Inr applicants \<Rightarrow>
               if falsy settings \<or> falsy applicants
               then (st, Json 400 (err ''Invalid import data. Missing settings or applicants.''))
               else (st\<lparr>settings_file := settings, applicants_file := applicants\<rparr>,
                     Json 200 (JObj [(''success'', JBool True),
                                     (''message'', JStr ''Data imported successfully.'')]))))"

text \<open>\<^verbatim>\<open>Array.isArray(v)\<close>\<close>

fun isArray :: "json option \<Rightarrow> bool" where
  "isArray (Some (JArr xs)) = True"
| "isArray v = False"

text \<open>
  \<^verbatim>\<open>POST /api/import\<close> of the server with export (the multipart variant). The second
  argument is the uploaded \<^verbatim>\<open>backupFile\<close>, if any, as what \<^verbatim>\<open>JSON.parse\<close> makes of its
  text: the parsed document, or the SyntaxError it throws.
\<close>

definition import_backup :: "store \<Rightarrow> (js_error + json) option \<Rightarrow> store \<times> reply" where
  "import_backup st file =
     (case file of
        None \<Rightarrow> (st, Json 400 (err ''No backup file uploaded.''))
      | Some (Inl e) \<Rightarrow>
          (st, Json 500 (err ''Failed to import data. The file may be corrupt or invalid.''))
      | Some (Inr backupData) \<Rightarrow>
          (case get_prop backupData ''settings'' of
             Inl e \<Rightarrow>
               (st, Json 500 (err ''Failed to import data. The file may be corrupt or invalid.''))
           | Inr settings \<Rightarrow>
               (case get_prop backupData ''applicants'' of
                  Inl e \<Rightarrow>
                    (st, Json 500 (err ''Failed to import data. The file may be corrupt or invalid.''))
                | Inr applicants \<Rightarrow>
                    if falsy settings \<or> \<not> isArray applicants
                    then (st, Json 400 (err ''Invalid backup file format.''))
                    else (st\<lparr>settings_file := settings, applicants_file := applicants\<rparr>,
                          Json 200
                            (msg ''Import successful. Application data has been restored.'')))))"

section \<open>Export\<close>

text \<open>
  What the export handler takes from the runtime and the disk: \<^verbatim>\<open>JSON.parse(v)\<close> of a
  record's \<^verbatim>\<open>Documents\<close> value (the parsed value, or the SyntaxError),
  \<^verbatim>\<open>path.join(__dirname, url)\<close>, whether \<^verbatim>\<open>fs.access\<close> of a path resolves,
  \<^verbatim>\<open>path.extname\<close>, the string that a number is printed as, and the UTF-16 code units
  that a string consists of.
\<close>

record env =
  json_parse :: "json \<Rightarrow> js_error + json"
  upload_path :: "string \<Rightarrow> string"
  accessible :: "string \<Rightarrow> bool"
  extname :: "string \<Rightarrow> string"
  number_to_string :: "int \<Rightarrow> string"
  code_units :: "string \<Rightarrow> nat list"

text \<open>
  The lines the handler logs: \<^verbatim>\<open>console.warn\<close> of a file that is not there (with its
  path), \<^verbatim>\<open>console.error\<close> of documents that could not be read (with the applicant's
  id as the template literal prints it), \<^verbatim>\<open>console.error\<close> of a failed export. The lines
  logged before a failed export are not kept.
\<close>

datatype log_line =
    FileNotFound string
  | CouldNotParse string
  | ExportError

text \<open>
  \<^verbatim>\<open>ids.includes(a.id)\<close> on an array of JSON values: \<^verbatim>\<open>undefined\<close> is never an
  element, a number, string, boolean or \<^verbatim>\<open>null\<close> is found by value, and an object or
  array is never found (it is compared by identity).
\<close>

fun is_primitive :: "json \<Rightarrow> bool" where
  "is_primitive (JArr xs) = False"
| "is_primitive (JObj kvs) = False"
| "is_primitive v = True"

definition ids_includes :: "json list \<Rightarrow> json option \<Rightarrow> bool" where
  "ids_includes ids v = (case v of None \<Rightarrow> False | Some x \<Rightarrow> is_primitive x \<and> x \<in> set ids)"

text \<open>
  \<^verbatim>\<open>ids && ids.length > 0 ? allApplicants.filter(a => ids.includes(a.id)) : allApplicants\<close>,
  for a request whose \<^verbatim>\<open>ids\<close> is absent or an array, as the interface has it.
\<close>

definition applicantsToExport :: "json list option \<Rightarrow> json \<Rightarrow> js_error + json" where
  "applicantsToExport ids allApplicants =
     (case ids of
        None \<Rightarrow> Inr allApplicants
      | Some [] \<Rightarrow> Inr allApplicants
      | Some (i # is) \<Rightarrow>
          (case allApplicants of
             JArr xs \<Rightarrow>
               (case filter_id (ids_includes (i # is)) xs of
                  Inl e \<Rightarrow> Inl e
                | Inr ys \<Rightarrow> Inr (JArr ys))
           | v \<Rightarrow> Inl TypeError))"

text \<open>\<^verbatim>\<open>v || d\<close>\<close>

definition or_else :: "json option \<Rightarrow> json \<Rightarrow> json" where
  "or_else v d = (case v of None \<Rightarrow> d | Some x \<Rightarrow> if truthy x then x else d)"

text \<open>
  The string a template literal makes of a value, \<^verbatim>\<open>`${v}`\<close>. An object prints as
  \<^verbatim>\<open>[object Object]\<close> through the inherited \<^verbatim>\<open>toString\<close>; an own member of that name
  hides it, is not callable, and the conversion throws a TypeError. An array is its
  elements joined by commas, with nothing for \<^verbatim>\<open>null\<close>; the first element that throws
  ends it. \<^verbatim>\<open>undefined\<close> prints as its name.
\<close>

fun join :: "string \<Rightarrow> string list \<Rightarrow> string" where
  "join sep [] = []"
| "join sep [s] = s"
| "join sep (s # t # ss) = s @ sep @ join sep (t # ss)"

fun sequence :: "(js_error + string) list \<Rightarrow> js_error + string list" where
  "sequence [] = Inr []"
| "sequence (r # rs) =
     (case r of
        Inl e \<Rightarrow> Inl e
      | Inr s \<Rightarrow> (case sequence rs of Inl e \<Rightarrow> Inl e | Inr ss \<Rightarrow> Inr (s # ss)))"

fun to_string :: "env \<Rightarrow> json \<Rightarrow> js_error + string" where
  "to_string env JNull = Inr ''null''"
| "to_string env (JBool b) = Inr (if b then ''true'' else ''false'')"
| "to_string env (JNum n) = Inr (number_to_string env n)"
| "to_string env (JStr s) = Inr s"
| "to_string env (JArr xs) =
     (case sequence (map (\<lambda>x. if x = JNull then Inr [] else to_string env x) xs) of
        Inl e \<Rightarrow> Inl e
      | Inr ss \<Rightarrow> Inr (join '','' ss))"
| "to_string env (JObj kvs) =
     (if map_of kvs ''toString'' = None then Inr ''[object Object]'' else Inl TypeError)"

definition to_string_opt :: "env \<Rightarrow> json option \<Rightarrow> js_error + string" where
  "to_string_opt env v = (case v of None \<Rightarrow> Inr ''undefined'' | Some x \<Rightarrow> to_string env x)"

definition crlf :: string where
  "crlf = [CHR 0x0D, CHR 0x0A]"

text \<open>One line of the text summary: \<^verbatim>\<open>`Label: ${app.Key || 'N/A'}\r\n`\<close>.\<close>

definition summary_line :: "env \<Rightarrow> string \<Rightarrow> json \<Rightarrow> string \<Rightarrow> js_error + string" where
  "summary_line env label app k =
     (case get_prop app k of
        Inl e \<Rightarrow> Inl e
      | Inr v \<Rightarrow>
          (case to_string env (or_else v (JStr ''N/A'')) of
             Inl e \<Rightarrow> Inl e
           | Inr s \<Rightarrow> Inr (label @ '': '' @ s @ crlf)))"

text \<open>The lines appended in turn; the first that throws ends it.\<close>

fun lines :: "(js_error + string) list \<Rightarrow> js_error + string" where
  "lines [] = Inr []"
| "lines (l # ls) =
     (case l of
        Inl e \<Rightarrow> Inl e
      | Inr s \<Rightarrow> (case lines ls of Inl e \<Rightarrow> Inl e | Inr t \<Rightarrow> Inr (s @ t)))"

text \<open>The body of the \<^verbatim>\<open>forEach\<close> that writes \<^verbatim>\<open>txtContent\<close>.\<close>

definition summary_block :: "env \<Rightarrow> json \<Rightarrow> js_error + string" where
  "summary_block env app =
     lines [summary_line env ''Name'' app ''FullName'',
            summary_line env ''Passport'' app ''PassportNumber'',
            summary_line env ''File Number'' app ''FileNumber'',
            summary_line env ''UID'' app ''UIDNumber'',
            summary_line env ''Email'' app ''Email'',
            summary_line env ''Phone'' app ''Phone'',
            summary_line env ''Nationality'' app ''Nationality'',
            Inr (''-----------------------'' @ crlf)]"

definition summary_header :: string where
  "summary_header = ''Applicant Data Export'' @ crlf @ ''======================='' @ crlf @ crlf"

definition txtContent :: "env \<Rightarrow> json list \<Rightarrow> js_error + string" where
  "txtContent env apps = lines (Inr summary_header # map (summary_block env) apps)"

text \<open>
  \<^verbatim>\<open>s.replace(/[^a-z0-9]/gi, '_').toLowerCase()\<close> and the variant that also keeps the
  dot. The replacement goes over the UTF-16 code units of the string: a unit that is not
  an ASCII letter or digit (or the dot, in the variant) becomes the underscore, 95. What
  is left is ASCII, of which \<^verbatim>\<open>toLowerCase\<close> changes the capitals. A value that is not a
  string has no \<^verbatim>\<open>replace\<close>.
\<close>

definition is_alnum :: "nat \<Rightarrow> bool" where
  "is_alnum u = ((48 \<le> u \<and> u \<le> 57) \<or> (65 \<le> u \<and> u \<le> 90) \<or> (97 \<le> u \<and> u \<le> 122))"

definition replace_unit :: "(nat \<Rightarrow> bool) \<Rightarrow> nat \<Rightarrow> nat" where
  "replace_unit keep u = (if keep u then u else 95)"

definition toLowerCase_unit :: "nat \<Rightarrow> nat" where
  "toLowerCase_unit u = (if 65 \<le> u \<and> u \<le> 90 then u + 32 else u)"

definition sanitize :: "env \<Rightarrow> (nat \<Rightarrow> bool) \<Rightarrow> json \<Rightarrow> js_error + string" where
  "sanitize env keep v =
     (case v of
        JStr s \<Rightarrow>
          Inr (map char_of (map toLowerCase_unit (map (replace_unit keep) (code_units env s))))
      | _ \<Rightarrow> Inl TypeError)"

definition folderName :: "env \<Rightarrow> json option \<Rightarrow> js_error + string" where
  "folderName env fullName = sanitize env is_alnum (or_else fullName (JStr ''unknown_applicant''))"

definition docName :: "env \<Rightarrow> json option \<Rightarrow> js_error + string" where
  "docName env name =
     sanitize env (\<lambda>u. is_alnum u \<or> u = 46) (or_else name (JStr ''unknown_doc''))"

text \<open>\<^verbatim>\<open>x.k\<close> where \<^verbatim>\<open>x\<close> is known not to be \<^verbatim>\<open>null\<close>.\<close>

definition field_of :: "json \<Rightarrow> string \<Rightarrow> json option" where
  "field_of x k = (case get_prop x k of Inl e \<Rightarrow> None | Inr v \<Rightarrow> v)"

text \<open>
  The inner \<^verbatim>\<open>try\<close> of the document loop, for a document whose \<^verbatim>\<open>url\<close> is the string
  \<^verbatim>\<open>url\<close>: whatever throws in it (the access check, a name that is not a string) is
  logged as a file that was not found, and the document is left out.
\<close>

definition add_doc :: "env \<Rightarrow> json \<Rightarrow> json \<Rightarrow> string \<Rightarrow> entry list \<times> log_line list" where
  "add_doc env applicant doc url =
     (let filePath = upload_path env url in
      if \<not> accessible env filePath then ([], [FileNotFound filePath])
      else
        (case folderName env (field_of applicant ''FullName'') of
           Inl e \<Rightarrow> ([], [FileNotFound filePath])
         | Inr folder \<Rightarrow>
             (case docName env (field_of doc ''name'') of
                Inl e \<Rightarrow> ([], [FileNotFound filePath])
              | Inr name \<Rightarrow>
                  ([File filePath (folder @ ''/'' @ name @ extname env url)], []))))"

text \<open>
  \<^verbatim>\<open>for (const doc of docs)\<close>. \<^verbatim>\<open>path.join(__dirname, doc.url)\<close> stands outside the inner
  \<^verbatim>\<open>try\<close>: a document that is \<^verbatim>\<open>null\<close>, or whose \<^verbatim>\<open>url\<close> is not a string, throws
  out of the loop, which ends it for this applicant; the files queued before stay
  queued. The result is what was queued and logged, and the error thrown, if any.
\<close>

fun add_docs ::
  "env \<Rightarrow> json \<Rightarrow> json list \<Rightarrow> (entry list \<times> log_line list) \<times> js_error option" where
  "add_docs env applicant [] = (([], []), None)"
| "add_docs env applicant (doc # docs) =
     (case get_prop doc ''url'' of
        Inr (Some (JStr url)) \<Rightarrow>
          (let (es, ls) = add_doc env applicant doc url;
               ((es', ls'), thrown) = add_docs env applicant docs
           in ((es @ es', ls @ ls'), thrown))
      | _ \<Rightarrow> (([], []), Some TypeError))"

text \<open>What \<^verbatim>\<open>for ... of\<close> iterates: an array or a string; anything else throws.\<close>

fun iterate :: "json \<Rightarrow> js_error + json list" where
  "iterate (JArr xs) = Inr xs"
| "iterate (JStr s) = Inr (map (\<lambda>c. JStr [c]) s)"
| "iterate v = Inl TypeError"

text \<open>
  The \<^verbatim>\<open>try\<close> block around an applicant's documents:
  \<^verbatim>\<open>const docs = JSON.parse(applicant.Documents); for (const doc of docs) { ... }\<close>.
\<close>

definition try_documents ::
  "env \<Rightarrow> json \<Rightarrow> json \<Rightarrow> (entry list \<times> log_line list) \<times> js_error option" where
  "try_documents env applicant d =
     (case json_parse env d of
        Inl e \<Rightarrow> (([], []), Some e)
      | Inr docs \<Rightarrow>
          (case iterate docs of
             Inl e \<Rightarrow> (([], []), Some e)
           | Inr ds \<Rightarrow> add_docs env applicant ds))"

text \<open>
  The body of the loop over the applicants: \<^verbatim>\<open>if (applicant.Documents) { try { ... }
  catch (e) { console.error(`Could not parse documents for applicant ${applicant.id}`, e) } }\<close>.
  The template literal of the \<^verbatim>\<open>catch\<close> can itself throw; that error leaves the loop
  and reaches the handler's \<^verbatim>\<open>catch\<close>.
\<close>

definition applicant_docs :: "env \<Rightarrow> json \<Rightarrow> js_error + entry list \<times> log_line list" where
  "applicant_docs env applicant =
     (case get_prop applicant ''Documents'' of
        Inl e \<Rightarrow> Inl e
      | Inr None \<Rightarrow> Inr ([], [])
      | Inr (Some d) \<Rightarrow>
          if \<not> truthy d then Inr ([], [])
          else
            (case try_documents env applicant d of
               ((es, ls), None) \<Rightarrow> Inr (es, ls)
             | ((es, ls), Some e) \<Rightarrow>
                 (case to_string_opt env (field_of applicant ''id'') of
                    Inl e' \<Rightarrow> Inl e'
                  | Inr i \<Rightarrow> Inr (es, ls @ [CouldNotParse i]))))"

fun collect_docs :: "env \<Rightarrow> json list \<Rightarrow> js_error + entry list \<times> log_line list" where
  "collect_docs env [] = Inr ([], [])"
| "collect_docs env (a # as) =
     (case applicant_docs env a of
        Inl e \<Rightarrow> Inl e
      | Inr (es, ls) \<Rightarrow>
          (case collect_docs env as of
             Inl e \<Rightarrow> Inl e
           | Inr (es', ls') \<Rightarrow> Inr (es @ es', ls @ ls')))"

definition export_failed :: "reply \<times> log_line list" where
  "export_failed = (Json 500 (err ''Failed to export data.''), [ExportError])"

text \<open>The zip branch, on the applicants to export.\<close>

definition export_zip :: "env \<Rightarrow> json \<Rightarrow> reply \<times> log_line list" where
  "export_zip env toExport =
     (case toExport of
        JArr apps \<Rightarrow>
          (case txtContent env apps of
             Inl e \<Rightarrow> export_failed
           | Inr txt \<Rightarrow>
               (case collect_docs env apps of
                  Inl e \<Rightarrow> export_failed
                | Inr (es, ls) \<Rightarrow> (Zip (Append txt ''applicant-data.txt'' # es), ls)))
      | v \<Rightarrow> export_failed)"

text \<open>
  \<^verbatim>\<open>POST /api/export\<close> with the body's \<^verbatim>\<open>type\<close> and \<^verbatim>\<open>ids\<close>. It writes nothing to the
  store; it returns the reply and the lines logged.
\<close>

definition export_data ::
  "env \<Rightarrow> store \<Rightarrow> json option \<Rightarrow> json list option \<Rightarrow> reply \<times> log_line list" where
  "export_data env st type ids =
     (case readDB (applicants_file st) of
        Inl e \<Rightarrow> export_failed
      | Inr allApplicants \<Rightarrow>
          (case readDB (settings_file st) of
             Inl e \<Rightarrow> export_failed
           | Inr settings \<Rightarrow>
               (case applicantsToExport ids allApplicants of
                  Inl e \<Rightarrow> export_failed
                | Inr toExport \<Rightarrow>
                    if type = Some (JStr ''backup'')
                    then (Backup (JObj [(''settings'', settings), (''applicants'', toExport)]), [])
                    else if type = Some (JStr ''zip'') then export_zip env toExport
                    else (Json 400 (err ''Invalid export type.''), []))))"

section \<open>Notions of the specification\<close>

text \<open>The record \<^verbatim>\<open>a\<close> has the string \<^verbatim>\<open>i\<close> as its id.\<close>

definition has_id :: "string \<Rightarrow> json \<Rightarrow> bool" where
  "has_id i a = (field_of a ''id'' = Some (JStr i))"

text \<open>The id of the record is a member of \<^verbatim>\<open>ids\<close>.\<close>

definition id_member :: "json list \<Rightarrow> json \<Rightarrow> bool" where
  "id_member ids a = (case field_of a ''id'' of None \<Rightarrow> False | Some v \<Rightarrow> v \<in> set ids)"

text \<open>A free-text attribute: a string, or nothing (absent or a falsy value).\<close>

definition free_text :: "json option \<Rightarrow> bool" where
  "free_text v = (case v of None \<Rightarrow> True | Some (JStr s) \<Rightarrow> True | Some x \<Rightarrow> \<not> truthy x)"

text \<open>
  The \<^verbatim>\<open>Documents\<close> of an applicant as the data model has them: a serialised sequence
  of \<^verbatim>\<open>{name, url}\<close> pairs, empty if there is none. \<^const>\<open>None\<close> when the value is there
  but is not the serialisation of a sequence.
\<close>

definition doc_url :: "json \<Rightarrow> string option" where
  "doc_url d = (case get_prop d ''url'' of Inr (Some (JStr u)) \<Rightarrow> Some u | _ \<Rightarrow> None)"

definition documents :: "env \<Rightarrow> json \<Rightarrow> json list option" where
  "documents env a =
     (case field_of a ''Documents'' of
        None \<Rightarrow> Some []
      | Some d \<Rightarrow>
          if \<not> truthy d then Some []
          else (case json_parse env d of Inr (JArr ds) \<Rightarrow> Some ds | _ \<Rightarrow> None))"

definition wf_doc :: "json \<Rightarrow> bool" where
  "wf_doc d = (doc_url d \<noteq> None \<and> free_text (field_of d ''name''))"

text \<open>The identity attributes that the text summary shows are free text.\<close>

definition summary_keys :: "string list" where
  "summary_keys =
     [''FullName'', ''PassportNumber'', ''FileNumber'', ''UIDNumber'', ''Email'', ''Phone'',
      ''Nationality'']"

definition free_text_fields :: "json \<Rightarrow> bool" where
  "free_text_fields a = list_all (\<lambda>k. free_text (field_of a k)) summary_keys"

text \<open>
  An applicant as the data model has it, for the archive: a record with free-text
  identity attributes whose documents are a serialised sequence of pairs.
\<close>

definition wf_applicant :: "env \<Rightarrow> json \<Rightarrow> bool" where
  "wf_applicant env a =
     (a \<noteq> JNull \<and> free_text_fields a \<and>
      (case documents env a of None \<Rightarrow> False | Some ds \<Rightarrow> list_all wf_doc ds))"



text \<open>The paths of the files that the applicant's documents reference, in order.\<close>

definition referenced :: "env \<Rightarrow> json \<Rightarrow> string list" where
  "referenced env a =
     (case documents env a of
        None \<Rightarrow> []
      | Some ds \<Rightarrow> map (upload_path env) (List.map_filter doc_url ds))"

text \<open>The file on disk that an archive entry was queued from.\<close>

fun source :: "entry \<Rightarrow> string option" where
  "source (File p n) = Some p"
| "source (Append c n) = None"



text \<open>
  The block of the text summary for one applicant with free-text attributes: each
  attribute as it was submitted, or \<^verbatim>\<open>N/A\<close> when there is none, under its label, and the
  delimiter line.
\<close>

definition text_of :: "json option \<Rightarrow> string" where
  "text_of v = (case v of Some (JStr s) \<Rightarrow> if s = [] then ''N/A'' else s | _ \<Rightarrow> ''N/A'')"

definition block_line :: "string \<Rightarrow> json \<Rightarrow> string \<Rightarrow> string" where
  "block_line label a k = label @ '': '' @ text_of (field_of a k) @ crlf"

definition block :: "json \<Rightarrow> string" where
  "block a =
     block_line ''Name'' a ''FullName'' @
     block_line ''Passport'' a ''PassportNumber'' @
     block_line ''File Number'' a ''FileNumber'' @
     block_line ''UID'' a ''UIDNumber'' @
     block_line ''Email'' a ''Email'' @
     block_line ''Phone'' a ''Phone'' @
     block_line ''Nationality'' a ''Nationality'' @
     ''-----------------------'' @ crlf"

section \<open>Sample data\<close>

definition demo_uuid :: string where
  "demo_uuid = ''123e4567-e89b-42d3-a456-426614174000''"

definition demo_settings :: json where
  "demo_settings =
     JObj [(''id'', JStr ''settings_1''),
           (''VISA_STEPS'', JArr [JStr ''Offer Letter'', JStr ''Labour Fees''])]"

definition jane :: json where
  "jane =
     JObj [(''id'', JStr ''a1''), (''FullName'', JStr ''Jane Doe''), (''Phone'', JStr ''555''),
           (''Documents'', JStr ''[{name:Passport Scan,url:/uploads/file-1.pdf},{name:Photo,url:/uploads/file-2.jpg}]'')]"

definition ali :: json where
  "ali =
     JObj [(''id'', JStr ''b2''), (''FullName'', JStr ''Ali''),
           (''Documents'', JStr ''not json'')]"

definition omar :: json where
  "omar =
     JObj [(''id'', JStr ''c3''), (''FullName'', JStr ''Omar''),
           (''Documents'', JStr ''[{name:Visa,url:/uploads/file-3.pdf}]'')]"

definition demo_store :: store where
  "demo_store = \<lparr>settings_file = Some demo_settings, applicants_file = Some (JArr [jane, ali])\<rparr>"

definition docs_store :: store where
  "docs_store = \<lparr>settings_file = Some demo_settings, applicants_file = Some (JArr [jane, omar])\<rparr>"

definition empty_store :: store where
  "empty_store = \<lparr>settings_file = Some demo_settings, applicants_file = Some (JArr [])\<rparr>"

text \<open>
  A runtime and disk for the samples: the two serialised document lists above (written
  without their quotation marks) parse to their sequences, anything else is a
  SyntaxError; only \<^verbatim>\<open>file-1.pdf\<close> and \<^verbatim>\<open>file-3.pdf\<close> are on disk. The sample strings
  are ASCII, one code unit for each character; the samples hold no number, and the
  printer given here is the decimal one, which is what the runtime prints below
  \<^verbatim>\<open>1e21\<close>.
\<close>

definition demo_parse :: "json \<Rightarrow> js_error + json" where
  "demo_parse v =
     (if v = JStr ''[{name:Passport Scan,url:/uploads/file-1.pdf},{name:Photo,url:/uploads/file-2.jpg}]''
      then Inr (JArr [JObj [(''name'', JStr ''Passport Scan''), (''url'', JStr ''/uploads/file-1.pdf'')],
                      JObj [(''name'', JStr ''Photo''), (''url'', JStr ''/uploads/file-2.jpg'')]])
      else if v = JStr ''[{name:Visa,url:/uploads/file-3.pdf}]''
      then Inr (JArr [JObj [(''name'', JStr ''Visa''), (''url'', JStr ''/uploads/file-3.pdf'')]])
      else Inl SyntaxError)"

definition demo_env :: env where
  "demo_env =
     \<lparr>json_parse = demo_parse,
      upload_path = (\<lambda>url. ''/srv'' @ url),
      accessible = (\<lambda>p. p = ''/srv/uploads/file-1.pdf'' \<or> p = ''/srv/uploads/file-3.pdf''),
      extname = (\<lambda>url. drop (length url - 4) url),
      number_to_string = (\<lambda>n. if n < 0 then CHR ''-'' # show_nat (nat (- n)) else show_nat (nat n)),
      code_units = map of_char\<rparr>"

section \<open>Properties\<close>

lemma map_of_fold_update:
  "distinct (map fst ps) \<Longrightarrow>
   map_of (fold (\<lambda>(k, v). AList.update k v) ps t) = map_of t ++ map_of ps"
proof (induction ps arbitrary: t)
  case Nil
  then show ?case by simp
next
  case (Cons p ps)
  obtain k v where p: "p = (k, v)" by (cases p)
  from Cons.prems p have k: "k \<notin> dom (map_of ps)" and d: "distinct (map fst ps)"
    by (auto simp: dom_map_of_conv_image_fst)
  have "map_of (fold (\<lambda>(k, v). AList.update k v) (p # ps) t)
        = map_of (AList.update k v t) ++ map_of ps"
    using Cons.IH [OF d] p by simp
  also have "\<dots> = (map_of t)(k \<mapsto> v) ++ map_of ps"
    by (simp add: update_conv')
  also have "\<dots> = map_of t ++ (map_of ps)(k \<mapsto> v)"
    using k by (auto simp: map_add_def fun_eq_iff domIff split: option.splits)
  also have "\<dots> = map_of t ++ map_of (p # ps)"
    using p by simp
  finally show ?case .
qed

lemma map_of_spread_obj:
  "map_of (spread t (JObj kvs)) = map_of t ++ map_of kvs"
  by (simp add: spread_def map_of_fold_update map_of_clearjunk)

lemma findIndex_id_total:
  "list_all (\<lambda>a. a \<noteq> JNull) xs \<Longrightarrow> \<exists>r. findIndex_id i xs = Inr r"
proof (induction xs)
  case Nil
  then show ?case by simp
next
  case (Cons a xs)
  then obtain r where "findIndex_id i xs = Inr r" by auto
  moreover from Cons.prems have "a \<noteq> JNull" by simp
  then obtain v where "get_prop a ''id'' = Inr v" by (cases a) auto
  ultimately show ?case by (cases r) auto
qed

lemma get_prop_field_of:
  "a \<noteq> JNull \<Longrightarrow> get_prop a k = Inr (field_of a k)"
  by (cases a) (auto simp: field_of_def)

lemma findIndex_id_None:
  "list_all (\<lambda>a. a \<noteq> JNull) xs \<Longrightarrow>
   (findIndex_id i xs = Inr None) = (\<not> list_ex (has_id i) xs)"
proof (induction xs)
  case Nil
  then show ?case by simp
next
  case (Cons a xs)
  then have a: "get_prop a ''id'' = Inr (field_of a ''id'')" by (simp add: get_prop_field_of)
  from Cons.prems obtain r where "findIndex_id i xs = Inr r"
    using findIndex_id_total [of xs i] by auto
  with Cons a show ?case by (cases r) (auto simp: has_id_def)
qed

lemma findIndex_id_Some:
  "findIndex_id i xs = Inr (Some n) \<Longrightarrow>
   n < length xs \<and> get_prop (xs ! n) ''id'' = Inr (Some (JStr i)) \<and>
   (\<forall>m<n. get_prop (xs ! m) ''id'' \<noteq> Inr (Some (JStr i)))"
proof (induction xs arbitrary: n)
  case Nil
  then show ?case by simp
next
  case (Cons a xs)
  show ?case
  proof (cases "get_prop a ''id'' = Inr (Some (JStr i))")
    case True
    with Cons.prems show ?thesis by simp
  next
    case False
    with Cons.prems obtain n' where n': "findIndex_id i xs = Inr (Some n')" "n = Suc n'"
      by (auto split: sum.splits option.splits if_splits)
    from Cons.IH [OF n'(1)] False n'(2) show ?thesis
      by (auto simp: less_Suc_eq_0_disj)
  qed
qed

lemma filter_id_filter:
  "list_all (\<lambda>a. a \<noteq> JNull) xs \<Longrightarrow>
   filter_id p xs = Inr (filter (\<lambda>a. p (field_of a ''id'')) xs)"
  by (induction xs) (auto simp: get_prop_field_of)

lemma has_id_obj:
  "has_id i a \<Longrightarrow> \<exists>old. a = JObj old \<and> map_of old ''id'' = Some (JStr i)"
  by (cases a) (auto simp: has_id_def field_of_def)

lemma put_applicant_found:
  assumes st: "applicants_file st = Some (JArr xs)"
    and nn: "list_all (\<lambda>a. a \<noteq> JNull) xs"
    and ex: "list_ex (has_id i) xs"
  shows "\<exists>n old kvs. n < length xs \<and> xs ! n = JObj old \<and> map_of old ''id'' = Some (JStr i) \<and>
           (\<forall>m<n. \<not> has_id i (xs ! m)) \<and>
           put_applicant st i (JObj flds) =
             (st\<lparr>applicants_file := Some (JArr (xs[n := JObj kvs]))\<rparr>, Json 200 (JObj kvs)) \<and>
           map_of kvs = map_of old ++ map_of flds"
proof -
  from nn obtain r where r: "findIndex_id i xs = Inr r"
    using findIndex_id_total by blast
  from ex nn r have "r \<noteq> None"
    using findIndex_id_None [of xs i] by auto
  then obtain n where n: "findIndex_id i xs = Inr (Some n)" using r by auto
  from findIndex_id_Some [OF n] have len: "n < length xs"
    and hit: "get_prop (xs ! n) ''id'' = Inr (Some (JStr i))"
    and first: "\<forall>m<n. get_prop (xs ! m) ''id'' \<noteq> Inr (Some (JStr i))"
    by auto
  from nn have nonnull: "\<forall>m<length xs. xs ! m \<noteq> JNull"
    by (simp add: list_all_length)
  from hit nonnull len have "has_id i (xs ! n)"
    by (simp add: has_id_def get_prop_field_of)
  then obtain old where old: "xs ! n = JObj old" "map_of old ''id'' = Some (JStr i)"
    using has_id_obj by blast
  have first': "\<forall>m<n. \<not> has_id i (xs ! m)"
    using first nonnull len by (auto simp: has_id_def get_prop_field_of)
  define kvs where "kvs = spread (spread [] (JObj old)) (JObj flds)"
  have "map_of kvs = map_of old ++ map_of flds"
    by (simp add: kvs_def map_of_spread_obj)
  moreover have "put_applicant st i (JObj flds) =
      (st\<lparr>applicants_file := Some (JArr (xs[n := JObj kvs]))\<rparr>, Json 200 (JObj kvs))"
    by (simp add: put_applicant_def readDB_def st n old kvs_def Let_def)
  ultimately show ?thesis using len old first' by blast
qed

lemma put_applicant_missing:
  assumes st: "applicants_file st = Some (JArr xs)"
    and nn: "list_all (\<lambda>a. a \<noteq> JNull) xs"
    and ex: "\<not> list_ex (has_id i) xs"
  shows "put_applicant st i body = (st, Json 404 (err ''Applicant not found.''))"
proof -
  from ex nn have "findIndex_id i xs = Inr None"
    using findIndex_id_None [of xs i] by simp
  then show ?thesis by (simp add: put_applicant_def readDB_def st)
qed

lemma post_applicant_record:
  assumes st: "applicants_file st = Some (JArr xs)"
  shows "\<exists>kvs. post_applicant uuid st (JObj flds) =
            (st\<lparr>applicants_file := Some (JArr (JObj kvs # xs))\<rparr>, Json 201 (JObj kvs)) \<and>
          map_of kvs = [''id'' \<mapsto> JStr uuid] ++ map_of flds"
proof -
  define kvs where "kvs = spread [(''id'', JStr uuid)] (JObj flds)"
  have "map_of kvs = [''id'' \<mapsto> JStr uuid] ++ map_of flds"
    by (simp add: kvs_def map_of_spread_obj)
  moreover have "post_applicant uuid st (JObj flds) =
      (st\<lparr>applicants_file := Some (JArr (JObj kvs # xs))\<rparr>, Json 201 (JObj kvs))"
    by (simp add: post_applicant_def readDB_def st kvs_def Let_def)
  ultimately show ?thesis by blast
qed

text \<open>
  C1 (as amended). On a collection that is stored as an array, create answers 201 with
  the record it prepended. The members of the record are the submitted fields and,
  under \<^verbatim>\<open>id\<close>, the generated id (a UUID, 36 characters, so not empty) when the field
  set has no \<^verbatim>\<open>id\<close> key, the submitted id when it has one. The list that follows
  shows the record first. For a field set without \<^verbatim>\<open>id\<close> key the records of the list
  that have the generated id are the new record and the stored records that had that id
  already: exactly one when no stored record had it, which the handler does not check.
\<close>

theorem create_generates_id:
  assumes st: "applicants_file st = Some (JArr xs)"
    and uuid: "length uuid = 36"
  shows "\<exists>kvs. post_applicant uuid st (JObj flds) =
            (st\<lparr>applicants_file := Some (JArr (JObj kvs # xs))\<rparr>, Json 201 (JObj kvs)) \<and>
          (\<forall>k. map_of kvs k =
             (case map_of flds k of
                Some v \<Rightarrow> Some v
              | None \<Rightarrow> if k = ''id'' then Some (JStr uuid) else None)) \<and>
          field_of (JObj kvs) ''id'' =
            (case map_of flds ''id'' of None \<Rightarrow> Some (JStr uuid) | Some v \<Rightarrow> Some v) \<and>
          uuid \<noteq> [] \<and>
          get_applicants (fst (post_applicant uuid st (JObj flds))) =
            Json 200 (JArr (JObj kvs # xs)) \<and>
          (map_of flds ''id'' = None \<longrightarrow>
             filter (has_id uuid) (JObj kvs # xs) = JObj kvs # filter (has_id uuid) xs \<and>
             (\<not> list_ex (has_id uuid) xs \<longrightarrow>
                filter (has_id uuid) (JObj kvs # xs) = [JObj kvs]))"
proof -
  from post_applicant_record [OF st, of uuid flds] obtain kvs where
    p: "post_applicant uuid st (JObj flds) =
          (st\<lparr>applicants_file := Some (JArr (JObj kvs # xs))\<rparr>, Json 201 (JObj kvs))"
    and m: "map_of kvs = [''id'' \<mapsto> JStr uuid] ++ map_of flds"
    by blast
  have members: "\<forall>k. map_of kvs k =
             (case map_of flds k of
                Some v \<Rightarrow> Some v
              | None \<Rightarrow> if k = ''id'' then Some (JStr uuid) else None)"
    by (simp add: m map_add_def split: option.splits)
  have ident: "field_of (JObj kvs) ''id'' =
            (case map_of flds ''id'' of None \<Rightarrow> Some (JStr uuid) | Some v \<Rightarrow> Some v)"
    by (simp add: field_of_def m map_add_def split: option.splits)
  have listed: "get_applicants (fst (post_applicant uuid st (JObj flds))) =
      Json 200 (JArr (JObj kvs # xs))"
    by (simp add: p get_applicants_def readDB_def)
  have one: "map_of flds ''id'' = None \<longrightarrow>
             filter (has_id uuid) (JObj kvs # xs) = JObj kvs # filter (has_id uuid) xs \<and>
             (\<not> list_ex (has_id uuid) xs \<longrightarrow>
                filter (has_id uuid) (JObj kvs # xs) = [JObj kvs])"
  proof
    assume "map_of flds ''id'' = None"
    with ident have "has_id uuid (JObj kvs)" by (simp add: has_id_def)
    then show "filter (has_id uuid) (JObj kvs # xs) = JObj kvs # filter (has_id uuid) xs \<and>
             (\<not> list_ex (has_id uuid) xs \<longrightarrow>
                filter (has_id uuid) (JObj kvs # xs) = [JObj kvs])"
      by (simp add: list_ex_iff filter_empty_conv)
  qed
  from uuid have ne: "uuid \<noteq> []" by auto
  show ?thesis
  proof (intro exI conjI)
    show "post_applicant uuid st (JObj flds) =
            (st\<lparr>applicants_file := Some (JArr (JObj kvs # xs))\<rparr>, Json 201 (JObj kvs))"
      by (rule p)
  qed (rule members ident ne listed one)+
qed

text \<open>
  C2 (as amended). For an existing id, update returns and stores a record whose id is
  the one it had before whenever the field set has no \<^verbatim>\<open>id\<close> key; a field set with an
  \<^verbatim>\<open>id\<close> key sets the id to the submitted value.
\<close>

theorem update_id:
  assumes st: "applicants_file st = Some (JArr xs)"
    and nn: "list_all (\<lambda>a. a \<noteq> JNull) xs"
    and ex: "list_ex (has_id i) xs"
  shows "\<exists>n kvs. n < length xs \<and> has_id i (xs ! n) \<and>
           put_applicant st i (JObj flds) =
             (st\<lparr>applicants_file := Some (JArr (xs[n := JObj kvs]))\<rparr>, Json 200 (JObj kvs)) \<and>
           field_of (JObj kvs) ''id'' =
             (case map_of flds ''id'' of None \<Rightarrow> Some (JStr i) | Some v \<Rightarrow> Some v)"
proof -
  from put_applicant_found [OF st nn ex, of flds]
  obtain n old kvs where h: "n < length xs" "xs ! n = JObj old"
      "map_of old ''id'' = Some (JStr i)"
      "put_applicant st i (JObj flds) =
         (st\<lparr>applicants_file := Some (JArr (xs[n := JObj kvs]))\<rparr>, Json 200 (JObj kvs))"
      "map_of kvs = map_of old ++ map_of flds"
    by blast
  have "has_id i (xs ! n)" using h(2,3) by (simp add: has_id_def field_of_def)
  moreover have "field_of (JObj kvs) ''id'' =
             (case map_of flds ''id'' of None \<Rightarrow> Some (JStr i) | Some v \<Rightarrow> Some v)"
    using h(3,5) by (simp add: field_of_def map_add_def split: option.splits)
  ultimately show ?thesis using h(1,4) by blast
qed

text \<open>
  C3. On a stored array of records, update of an existing id replaces the first record
  with that id by the overlay of the field set on it: a key of the field set takes the
  submitted value, every other key keeps its previous value; every other position of
  the collection, and the settings, are unchanged, and the reply carries the new record.
  When no record has the id, update answers 404 and writes nothing.
\<close>

theorem update_overlay:
  assumes st: "applicants_file st = Some (JArr xs)"
    and nn: "list_all (\<lambda>a. a \<noteq> JNull) xs"
  shows "if list_ex (has_id i) xs
         then \<exists>n old kvs. n < length xs \<and> xs ! n = JObj old \<and> has_id i (JObj old) \<and>
                (\<forall>m<n. \<not> has_id i (xs ! m)) \<and>
                put_applicant st i (JObj flds) =
                  (st\<lparr>applicants_file := Some (JArr (xs[n := JObj kvs]))\<rparr>, Json 200 (JObj kvs)) \<and>
                (\<forall>k. map_of kvs k =
                       (case map_of flds k of Some v \<Rightarrow> Some v | None \<Rightarrow> map_of old k)) \<and>
                (\<forall>m<length xs. m \<noteq> n \<longrightarrow> (xs[n := JObj kvs]) ! m = xs ! m)
         else put_applicant st i body = (st, Json 404 (err ''Applicant not found.''))"
proof (cases "list_ex (has_id i) xs")
  case True
  from put_applicant_found [OF st nn True, of flds]
  obtain n old kvs where h: "n < length xs" "xs ! n = JObj old"
      "map_of old ''id'' = Some (JStr i)" "\<forall>m<n. \<not> has_id i (xs ! m)"
      "put_applicant st i (JObj flds) =
         (st\<lparr>applicants_file := Some (JArr (xs[n := JObj kvs]))\<rparr>, Json 200 (JObj kvs))"
      "map_of kvs = map_of old ++ map_of flds"
    by blast
  have a: "has_id i (JObj old)" using h(3) by (simp add: has_id_def field_of_def)
  have b: "\<forall>k. map_of kvs k =
      (case map_of flds k of Some v \<Rightarrow> Some v | None \<Rightarrow> map_of old k)"
    using h(6) by (simp add: map_add_def)
  have c: "\<forall>m<length xs. m \<noteq> n \<longrightarrow> (xs[n := JObj kvs]) ! m = xs ! m" by simp
  from h(1,2,4,5) a b c True show ?thesis by auto
next
  case False
  with put_applicant_missing [OF st nn] show ?thesis by simp
qed

text \<open>
  C4. On a stored array of records, delete of an existing id stores the collection
  without the records of that id, the others unchanged and in order, so the list that
  follows does not contain it; delete of an absent id answers 404 and leaves the store
  exactly as it was.
\<close>

theorem delete_applicant_effect:
  assumes st: "applicants_file st = Some (JArr xs)"
    and nn: "list_all (\<lambda>a. a \<noteq> JNull) xs"
  shows "if list_ex (has_id i) xs
         then delete_applicant st i =
                (st\<lparr>applicants_file := Some (JArr (filter (\<lambda>a. \<not> has_id i a) xs))\<rparr>,
                 Json 200 (msg ''Applicant deleted successfully.'')) \<and>
              get_applicants (fst (delete_applicant st i)) =
                Json 200 (JArr (filter (\<lambda>a. \<not> has_id i a) xs))
         else delete_applicant st i = (st, Json 404 (err ''Applicant not found.''))"
proof -
  have f: "filter_id (\<lambda>v. v \<noteq> Some (JStr i)) xs = Inr (filter (\<lambda>a. \<not> has_id i a) xs)"
    using filter_id_filter [OF nn] by (simp add: has_id_def)
  show ?thesis
  proof (cases "list_ex (has_id i) xs")
    case True
    then obtain a where "a \<in> set xs" "has_id i a" by (auto simp: list_ex_iff)
    then have "length (filter (\<lambda>a. \<not> has_id i a) xs) < length xs"
      by (intro length_filter_less) auto
    with True f show ?thesis
      by (simp add: delete_applicant_def readDB_def st get_applicants_def)
  next
    case False
    then have "filter (\<lambda>a. \<not> has_id i a) xs = xs"
      by (simp add: list_ex_iff filter_id_conv)
    with False f show ?thesis
      by (simp add: delete_applicant_def readDB_def st)
  qed
qed

lemma to_string_free_text:
  "free_text v \<Longrightarrow> to_string env (or_else v (JStr ''N/A'')) = Inr (text_of v)"
proof (cases v)
  case None
  then show ?thesis by (simp add: or_else_def text_of_def)
next
  case (Some x)
  assume "free_text v"
  with Some show ?thesis
    by (cases x) (auto simp: or_else_def free_text_def text_of_def)
qed

lemma summary_line_free_text:
  "a \<noteq> JNull \<Longrightarrow> free_text (field_of a k) \<Longrightarrow>
   summary_line env label a k = Inr (block_line label a k)"
  by (simp add: summary_line_def block_line_def get_prop_field_of to_string_free_text)

lemma summary_block_free_text:
  "a \<noteq> JNull \<Longrightarrow> free_text_fields a \<Longrightarrow> summary_block env a = Inr (block a)"
  by (simp add: summary_block_def block_def summary_line_free_text free_text_fields_def
      summary_keys_def)

lemma lines_blocks:
  "list_all (\<lambda>a. a \<noteq> JNull \<and> free_text_fields a) apps \<Longrightarrow>
   lines (map (summary_block env) apps) = Inr (concat (map block apps))"
  by (induction apps) (auto simp: summary_block_free_text)

lemma txtContent_free_text:
  "list_all (\<lambda>a. a \<noteq> JNull \<and> free_text_fields a) apps \<Longrightarrow>
   txtContent env apps = Inr (summary_header @ concat (map block apps))"
  by (simp add: txtContent_def lines_blocks)

lemma free_text_or_else:
  "free_text v \<Longrightarrow> \<exists>s. or_else v (JStr d) = JStr s"
proof (cases v)
  case None
  then show ?thesis by (simp add: or_else_def)
next
  case (Some x)
  assume "free_text v"
  with Some show ?thesis by (cases x) (auto simp: or_else_def free_text_def)
qed

lemma sanitize_free_text:
  "free_text v \<Longrightarrow> \<exists>s. sanitize env keep (or_else v (JStr d)) = Inr s"
  using free_text_or_else [of v d] by (auto simp: sanitize_def)

lemma add_doc_wf:
  assumes "free_text (field_of a ''FullName'')" and "free_text (field_of d ''name'')"
  shows "\<exists>n. add_doc env a d u =
           (if accessible env (upload_path env u) then ([File (upload_path env u) n], [])
            else ([], [FileNotFound (upload_path env u)]))"
proof -
  from assms(1) obtain f where f: "folderName env (field_of a ''FullName'') = Inr f"
    using sanitize_free_text [of "field_of a ''FullName''" env is_alnum "''unknown_applicant''"]
    by (auto simp: folderName_def)
  from assms(2) obtain m where m: "docName env (field_of d ''name'') = Inr m"
    using sanitize_free_text [of "field_of d ''name''" env "\<lambda>u. is_alnum u \<or> u = 46" "''unknown_doc''"]
    by (auto simp: docName_def)
  show ?thesis by (simp add: add_doc_def Let_def f m)
qed

lemma doc_url_Some:
  "doc_url d = Some u \<Longrightarrow> get_prop d ''url'' = Inr (Some (JStr u))"
  by (auto simp: doc_url_def split: sum.splits option.splits json.splits)

lemma add_docs_wf:
  assumes a: "free_text (field_of a ''FullName'')"
  shows "list_all wf_doc ds \<Longrightarrow>
         \<exists>es. add_docs env a ds =
                ((es, map FileNotFound
                        (filter (\<lambda>p. \<not> accessible env p)
                           (map (upload_path env) (List.map_filter doc_url ds)))), None) \<and>
              map source es =
                map Some (filter (accessible env)
                            (map (upload_path env) (List.map_filter doc_url ds)))"
proof (induction ds)
  case Nil
  then show ?case by simp
next
  case (Cons d ds)
  from Cons.prems obtain u where u: "doc_url d = Some u" and n: "free_text (field_of d ''name'')"
    by (auto simp: wf_doc_def)
  from add_doc_wf [OF a n, of env u] obtain nm where
    nm: "add_doc env a d u =
           (if accessible env (upload_path env u) then ([File (upload_path env u) nm], [])
            else ([], [FileNotFound (upload_path env u)]))"
    by blast
  from Cons obtain es where
    IH: "add_docs env a ds =
           ((es, map FileNotFound
                   (filter (\<lambda>p. \<not> accessible env p)
                      (map (upload_path env) (List.map_filter doc_url ds)))), None)"
        "map source es =
           map Some (filter (accessible env) (map (upload_path env) (List.map_filter doc_url ds)))"
    by auto
  show ?case
    using IH nm u by (simp add: doc_url_Some [OF u])
qed

lemma free_text_fields_FullName:
  "free_text_fields a \<Longrightarrow> free_text (field_of a ''FullName'')"
  by (simp add: free_text_fields_def summary_keys_def)

lemma applicant_docs_wf:
  assumes "wf_applicant env a"
  shows "\<exists>es. applicant_docs env a =
            Inr (es, map FileNotFound (filter (\<lambda>p. \<not> accessible env p) (referenced env a))) \<and>
          map source es = map Some (filter (accessible env) (referenced env a))"
proof -
  from assms have nn: "a \<noteq> JNull" and ft: "free_text (field_of a ''FullName'')"
    by (auto simp: wf_applicant_def free_text_fields_FullName)
  from assms obtain ds where ds: "documents env a = Some ds" and wf: "list_all wf_doc ds"
    by (auto simp: wf_applicant_def split: option.splits)
  from add_docs_wf [OF ft wf, of env] obtain es where
    D: "add_docs env a ds =
          ((es, map FileNotFound
                  (filter (\<lambda>p. \<not> accessible env p)
                     (map (upload_path env) (List.map_filter doc_url ds)))), None)"
       "map source es =
          map Some (filter (accessible env) (map (upload_path env) (List.map_filter doc_url ds)))"
    by blast
  show ?thesis
  proof (cases "field_of a ''Documents''")
    case None
    with ds nn show ?thesis
      by (simp add: applicant_docs_def get_prop_field_of referenced_def documents_def)
  next
    case (Some d)
    show ?thesis
    proof (cases "truthy d")
      case False
      with Some ds nn show ?thesis
        by (simp add: applicant_docs_def get_prop_field_of referenced_def documents_def)
    next
      case True
      with Some ds have p: "json_parse env d = Inr (JArr ds)"
        by (auto simp: documents_def split: sum.splits json.splits)
      have "applicant_docs env a =
          Inr (es, map FileNotFound
                  (filter (\<lambda>p. \<not> accessible env p)
                     (map (upload_path env) (List.map_filter doc_url ds))))"
        using Some True p nn D(1)
        by (simp add: applicant_docs_def try_documents_def get_prop_field_of)
      moreover have "referenced env a = map (upload_path env) (List.map_filter doc_url ds)"
        using ds by (simp add: referenced_def)
      ultimately show ?thesis using D(2) by simp
    qed
  qed
qed

lemma collect_docs_wf:
  "list_all (wf_applicant env) apps \<Longrightarrow>
   \<exists>es. collect_docs env apps =
          Inr (es, map FileNotFound
                     (filter (\<lambda>p. \<not> accessible env p) (concat (map (referenced env) apps)))) \<and>
        map source es = map Some (filter (accessible env) (concat (map (referenced env) apps)))"
proof (induction apps)
  case Nil
  then show ?case by simp
next
  case (Cons a apps)
  from Cons.prems applicant_docs_wf [of env a] obtain es where
    es: "applicant_docs env a =
            Inr (es, map FileNotFound (filter (\<lambda>p. \<not> accessible env p) (referenced env a)))"
        "map source es = map Some (filter (accessible env) (referenced env a))"
    by auto
  from Cons obtain es' where
    es': "collect_docs env apps =
          Inr (es', map FileNotFound
                     (filter (\<lambda>p. \<not> accessible env p) (concat (map (referenced env) apps))))"
         "map source es' = map Some (filter (accessible env) (concat (map (referenced env) apps)))"
    by auto
  show ?case using es es' by simp
qed

lemma wf_applicant_free_text:
  "list_all (wf_applicant env) apps \<Longrightarrow> list_all (\<lambda>a. a \<noteq> JNull \<and> free_text_fields a) apps"
  by (induction apps) (auto simp: wf_applicant_def)

lemma export_data_zip:
  assumes "settings_file st = Some s" and "applicants_file st = Some all"
    and "applicantsToExport ids all = Inr toExport"
  shows "export_data env st (Some (JStr ''zip'')) ids = export_zip env toExport"
  using assms by (simp add: export_data_def readDB_def)

text \<open>
  C8. For applicants whose identity attributes are free text and whose documents are a
  serialised sequence of \<^verbatim>\<open>{name, url}\<close> pairs, the zip export succeeds whatever files
  are missing: the archive is the text summary (the header and the block of every
  applicant, in order) followed by one file entry for each referenced document whose
  file is on disk, in order, and each missing file is logged as a warning and left out.
\<close>

theorem archive_skips_missing_files:
  assumes s: "settings_file st = Some s" and a: "applicants_file st = Some all"
    and sel: "applicantsToExport ids all = Inr (JArr apps)"
    and wf: "list_all (wf_applicant env) apps"
  shows "\<exists>es. export_data env st (Some (JStr ''zip'')) ids =
            (Zip (Append (summary_header @ concat (map block apps)) ''applicant-data.txt'' # es),
             map FileNotFound
               (filter (\<lambda>p. \<not> accessible env p) (concat (map (referenced env) apps)))) \<and>
           map source es = map Some (filter (accessible env) (concat (map (referenced env) apps)))"
proof -
  from wf have "txtContent env apps = Inr (summary_header @ concat (map block apps))"
    by (simp add: txtContent_free_text wf_applicant_free_text)
  moreover from collect_docs_wf [OF wf] obtain es where
    "collect_docs env apps =
          Inr (es, map FileNotFound
                     (filter (\<lambda>p. \<not> accessible env p) (concat (map (referenced env) apps))))"
    "map source es = map Some (filter (accessible env) (concat (map (referenced env) apps)))"
    by blast
  ultimately show ?thesis
    by (simp add: export_data_zip [OF s a sel] export_zip_def)
qed











text \<open>
  Where a template literal throws, the export as a whole fails: an identity attribute
  that is an object with a \<^verbatim>\<open>toString\<close> member of its own stops the summary, and an id
  of that kind stops the \<^verbatim>\<open>catch\<close> that logs unreadable documents.
\<close>

lemma summary_own_toString_fails:
  "export_data demo_env
     \<lparr>settings_file = Some demo_settings,
      applicants_file =
        Some (JArr [JObj [(''id'', JStr ''d4''),
                          (''PassportNumber'', JObj [(''toString'', JNum 1)])]])\<rparr>
     (Some (JStr ''zip'')) None = export_failed"
  by (simp add: export_data_def readDB_def applicantsToExport_def export_zip_def txtContent_def
      summary_block_def summary_line_def or_else_def)

lemma catch_own_toString_fails:
  "export_data demo_env
     \<lparr>settings_file = Some demo_settings,
      applicants_file =
        Some (JArr [JObj [(''id'', JObj [(''toString'', JNum 1)]),
                          (''Documents'', JStr ''not json'')]])\<rparr>
     (Some (JStr ''zip'')) None = export_failed"
  by (simp add: export_data_def readDB_def applicantsToExport_def export_zip_def txtContent_def
      summary_block_def summary_line_def or_else_def applicant_docs_def try_documents_def
      to_string_opt_def field_of_def demo_env_def demo_parse_def)

lemma import_backup_rejects:
  assumes "d \<noteq> JNull"
    and "falsy (field_of d ''settings'') \<or> \<not> isArray (field_of d ''applicants'')"
  shows "import_backup st (Some (Inr d)) = (st, Json 400 (err ''Invalid backup file format.''))"
  using assms by (auto simp: import_backup_def get_prop_field_of)

lemma import_backup_applies:
  assumes "map_of kvs ''settings'' = Some s" and "truthy s"
    and "map_of kvs ''applicants'' = Some (JArr xs)"
  shows "import_backup st (Some (Inr (JObj kvs))) =
           (st\<lparr>settings_file := Some s, applicants_file := Some (JArr xs)\<rparr>,
            Json 200 (msg ''Import successful. Application data has been restored.''))"
  using assms by (simp add: import_backup_def falsy_def)

text \<open>
  C5. The import handler of \<^verbatim>\<open>server.js\<close> tests the applicants of the payload for
  truthiness only. For the payload \<^verbatim>\<open>{settings: {}, applicants: "not-an-array"}\<close> it
  answers 200 and overwrites both files, so the applicants file then holds a string
  and the next create fails with 500; the multipart import handler rejects the same
  document with 400 and leaves the store alone.
\<close>

theorem import_json_accepts_non_sequence:
  "import_json demo_store (JObj [(''settings'', JObj []), (''applicants'', JStr ''not-an-array'')]) =
     (\<lparr>settings_file = Some (JObj []), applicants_file = Some (JStr ''not-an-array'')\<rparr>,
      Json 200 (JObj [(''success'', JBool True), (''message'', JStr ''Data imported successfully.'')])) \<and>
   get_applicants \<lparr>settings_file = Some (JObj []), applicants_file = Some (JStr ''not-an-array'')\<rparr> =
     Json 200 (JStr ''not-an-array'') \<and>
   snd (post_applicant demo_uuid
          \<lparr>settings_file = Some (JObj []), applicants_file = Some (JStr ''not-an-array'')\<rparr>
          (JObj [(''FullName'', JStr ''Sara'')])) =
     Json 500 (err ''Failed to add applicant.'') \<and>
   import_backup demo_store
       (Some (Inr (JObj [(''settings'', JObj []), (''applicants'', JStr ''not-an-array'')]))) =
     (demo_store, Json 400 (err ''Invalid backup file format.''))"
  by (simp add: import_json_def import_backup_def falsy_def demo_store_def get_applicants_def
      post_applicant_def readDB_def)

text \<open>
  C6. For every settings document and applicant collection, the backup export of the
  whole store (no \<^verbatim>\<open>ids\<close>, or an empty list) is a document whose import, into any
  store, is applied and leaves exactly the original settings and applicants stored;
  so does the import of that document as a JSON body.
\<close>

theorem backup_round_trip:
  "\<exists>doc. export_data env \<lparr>settings_file = Some (JObj s), applicants_file = Some (JArr xs)\<rparr>
            (Some (JStr ''backup'')) None = (Backup doc, []) \<and>
         export_data env \<lparr>settings_file = Some (JObj s), applicants_file = Some (JArr xs)\<rparr>
            (Some (JStr ''backup'')) (Some []) = (Backup doc, []) \<and>
         import_backup fresh (Some (Inr doc)) =
           (\<lparr>settings_file = Some (JObj s), applicants_file = Some (JArr xs)\<rparr>,
            Json 200 (msg ''Import successful. Application data has been restored.'')) \<and>
         fst (import_json fresh doc) =
           \<lparr>settings_file = Some (JObj s), applicants_file = Some (JArr xs)\<rparr>"
proof -
  let ?st = "\<lparr>settings_file = Some (JObj s), applicants_file = Some (JArr xs)\<rparr>"
  let ?doc = "JObj [(''settings'', JObj s), (''applicants'', JArr xs)]"
  have "export_data env ?st (Some (JStr ''backup'')) None = (Backup ?doc, [])"
    and "export_data env ?st (Some (JStr ''backup'')) (Some []) = (Backup ?doc, [])"
    by (simp_all add: export_data_def readDB_def applicantsToExport_def)
  moreover have "import_backup fresh (Some (Inr ?doc)) =
      (?st, Json 200 (msg ''Import successful. Application data has been restored.''))"
    by (simp add: import_backup_def falsy_def)
  moreover have "fst (import_json fresh ?doc) = ?st"
    by (simp add: import_json_def falsy_def)
  ultimately show ?thesis by blast
qed

lemma ids_includes_member:
  "list_all is_primitive ids \<Longrightarrow> ids_includes ids (field_of a ''id'') = id_member ids a"
  by (auto simp: ids_includes_def id_member_def list_all_iff split: option.splits)

text \<open>
  C7. The backup export is the document \<^verbatim>\<open>{settings, applicants}\<close>. Without \<^verbatim>\<open>ids\<close>,
  or with an empty list, the applicants are the whole stored collection; with a
  non-empty list of ids (scalars, as ids are) they are exactly the stored records whose
  id is a member of the list, in the order of the stored collection.
\<close>

theorem export_backup_selection:
  assumes s: "settings_file st = Some s" and a: "applicants_file st = Some (JArr xs)"
  shows "export_data env st (Some (JStr ''backup'')) None =
           (Backup (JObj [(''settings'', s), (''applicants'', JArr xs)]), []) \<and>
         export_data env st (Some (JStr ''backup'')) (Some []) =
           (Backup (JObj [(''settings'', s), (''applicants'', JArr xs)]), []) \<and>
         (ids \<noteq> [] \<and> list_all is_primitive ids \<and> list_all (\<lambda>a. a \<noteq> JNull) xs \<longrightarrow>
          export_data env st (Some (JStr ''backup'')) (Some ids) =
            (Backup (JObj [(''settings'', s), (''applicants'', JArr (filter (id_member ids) xs))]),
             []))"
proof -
  have whole: "export_data env st (Some (JStr ''backup'')) None =
           (Backup (JObj [(''settings'', s), (''applicants'', JArr xs)]), [])"
    "export_data env st (Some (JStr ''backup'')) (Some []) =
           (Backup (JObj [(''settings'', s), (''applicants'', JArr xs)]), [])"
    by (simp_all add: export_data_def readDB_def s a applicantsToExport_def)
  have part: "ids \<noteq> [] \<and> list_all is_primitive ids \<and> list_all (\<lambda>a. a \<noteq> JNull) xs \<longrightarrow>
          export_data env st (Some (JStr ''backup'')) (Some ids) =
            (Backup (JObj [(''settings'', s), (''applicants'', JArr (filter (id_member ids) xs))]),
             [])"
  proof (intro impI, elim conjE)
    assume i: "ids \<noteq> []" and p: "list_all is_primitive ids"
      and nn: "list_all (\<lambda>a. a \<noteq> JNull) xs"
    from i obtain j js where j: "ids = j # js" by (cases ids) auto
    have "filter_id (ids_includes ids) xs = Inr (filter (id_member ids) xs)"
      using filter_id_filter [OF nn] ids_includes_member [OF p] by simp
    then show "export_data env st (Some (JStr ''backup'')) (Some ids) =
            (Backup (JObj [(''settings'', s), (''applicants'', JArr (filter (id_member ids) xs))]),
             [])"
      by (simp add: export_data_def readDB_def s a applicantsToExport_def j)
  qed
  from whole part show ?thesis by blast
qed

lemmas demo_defs = demo_store_def docs_store_def empty_store_def jane_def ali_def omar_def
  demo_settings_def demo_uuid_def

text \<open>
  The amended C1 on the sample store: Sara is created with the generated id, and is
  the one record of the list with it.
\<close>

theorem create_generates_id_witness:
  "applicants_file demo_store = Some (JArr [jane, ali]) \<and>
   length demo_uuid = 36 \<and>
   map_of [(''FullName'', JStr ''Sara''), (''Phone'', JStr ''050'')] ''id'' = None \<and>
   \<not> list_ex (has_id demo_uuid) [jane, ali] \<and>
   snd (post_applicant demo_uuid demo_store
          (JObj [(''FullName'', JStr ''Sara''), (''Phone'', JStr ''050'')])) =
     Json 201 (JObj [(''id'', JStr demo_uuid), (''FullName'', JStr ''Sara''), (''Phone'', JStr ''050'')]) \<and>
   (\<exists>kvs. get_applicants (fst (post_applicant demo_uuid demo_store
              (JObj [(''FullName'', JStr ''Sara''), (''Phone'', JStr ''050'')]))) =
            Json 200 (JArr [JObj kvs, jane, ali]) \<and>
          field_of (JObj kvs) ''id'' = Some (JStr demo_uuid) \<and>
          filter (has_id demo_uuid) [JObj kvs, jane, ali] = [JObj kvs])"
proof -
  have h1: "applicants_file demo_store = Some (JArr [jane, ali])"
    by (simp add: demo_store_def)
  have h2: "length demo_uuid = 36" by (simp add: demo_uuid_def)
  have h3: "map_of [(''FullName'', JStr ''Sara''), (''Phone'', JStr ''050'')] ''id'' = None"
    by simp
  have h4: "\<not> list_ex (has_id demo_uuid) [jane, ali]"
    by (simp add: has_id_def field_of_def demo_defs)
  have e: "snd (post_applicant demo_uuid demo_store
          (JObj [(''FullName'', JStr ''Sara''), (''Phone'', JStr ''050'')])) =
     Json 201 (JObj [(''id'', JStr demo_uuid), (''FullName'', JStr ''Sara''), (''Phone'', JStr ''050'')])"
    by (simp add: post_applicant_def readDB_def spread_def demo_store_def AList.delete_eq Let_def)
  from create_generates_id [OF h1 h2, of "[(''FullName'', JStr ''Sara''), (''Phone'', JStr ''050'')]"]
  obtain kvs where
    c: "post_applicant demo_uuid demo_store
          (JObj [(''FullName'', JStr ''Sara''), (''Phone'', JStr ''050'')]) =
         (demo_store\<lparr>applicants_file := Some (JArr [JObj kvs, jane, ali])\<rparr>,
          Json 201 (JObj kvs)) \<and>
       (\<forall>k. map_of kvs k =
          (case map_of [(''FullName'', JStr ''Sara''), (''Phone'', JStr ''050'')] k of
             Some v \<Rightarrow> Some v
           | None \<Rightarrow> if k = ''id'' then Some (JStr demo_uuid) else None)) \<and>
       field_of (JObj kvs) ''id'' =
         (case map_of [(''FullName'', JStr ''Sara''), (''Phone'', JStr ''050'')] ''id'' of
            None \<Rightarrow> Some (JStr demo_uuid) | Some v \<Rightarrow> Some v) \<and>
       demo_uuid \<noteq> [] \<and>
       get_applicants (fst (post_applicant demo_uuid demo_store
              (JObj [(''FullName'', JStr ''Sara''), (''Phone'', JStr ''050'')]))) =
            Json 200 (JArr [JObj kvs, jane, ali]) \<and>
       (map_of [(''FullName'', JStr ''Sara''), (''Phone'', JStr ''050'')] ''id'' = None \<longrightarrow>
         filter (has_id demo_uuid) [JObj kvs, jane, ali] =
           JObj kvs # filter (has_id demo_uuid) [jane, ali] \<and>
         (\<not> list_ex (has_id demo_uuid) [jane, ali] \<longrightarrow>
            filter (has_id demo_uuid) [JObj kvs, jane, ali] = [JObj kvs]))" ..
  from c have k1: "get_applicants (fst (post_applicant demo_uuid demo_store
              (JObj [(''FullName'', JStr ''Sara''), (''Phone'', JStr ''050'')]))) =
            Json 200 (JArr [JObj kvs, jane, ali])"
    by (elim conjE)
  from c have k2: "field_of (JObj kvs) ''id'' =
         (case map_of [(''FullName'', JStr ''Sara''), (''Phone'', JStr ''050'')] ''id'' of
            None \<Rightarrow> Some (JStr demo_uuid) | Some v \<Rightarrow> Some v)"
    by (elim conjE)
  from c have k3: "map_of [(''FullName'', JStr ''Sara''), (''Phone'', JStr ''050'')] ''id'' = None \<longrightarrow>
         filter (has_id demo_uuid) [JObj kvs, jane, ali] =
           JObj kvs # filter (has_id demo_uuid) [jane, ali] \<and>
         (\<not> list_ex (has_id demo_uuid) [jane, ali] \<longrightarrow>
            filter (has_id demo_uuid) [JObj kvs, jane, ali] = [JObj kvs])"
    by (elim conjE)
  from k2 have i: "field_of (JObj kvs) ''id'' = Some (JStr demo_uuid)"
    unfolding h3 by simp
  from k3 h3 h4 have f: "filter (has_id demo_uuid) [JObj kvs, jane, ali] = [JObj kvs]"
    by blast
  from k1 i f have "\<exists>kvs. get_applicants (fst (post_applicant demo_uuid demo_store
              (JObj [(''FullName'', JStr ''Sara''), (''Phone'', JStr ''050'')]))) =
            Json 200 (JArr [JObj kvs, jane, ali]) \<and>
          field_of (JObj kvs) ''id'' = Some (JStr demo_uuid) \<and>
          filter (has_id demo_uuid) [JObj kvs, jane, ali] = [JObj kvs]"
    by blast
  with h1 h2 h3 h4 e show ?thesis by blast
qed

text \<open>
  C1 as stated fails for a field set that carries an \<^verbatim>\<open>id\<close> key: the submitted id
  replaces the generated one. Submitting an empty id returns a record whose id is empty,
  and submitting the id of a stored record leaves two records with that id in the list.
  It also fails when a stored record already has the id that is generated: the handler
  does not look, and the list then has two records with the generated id.
\<close>

theorem create_id_counterexample:
  "snd (post_applicant demo_uuid empty_store (JObj [(''id'', JStr ''''), (''FullName'', JStr ''Sara'')])) =
     Json 201 (JObj [(''id'', JStr ''''), (''FullName'', JStr ''Sara'')]) \<and>
   get_applicants (fst (post_applicant demo_uuid demo_store
        (JObj [(''id'', JStr ''a1''), (''FullName'', JStr ''Sara'')]))) =
     Json 200 (JArr [JObj [(''id'', JStr ''a1''), (''FullName'', JStr ''Sara'')], jane, ali]) \<and>
   length (filter (has_id ''a1'') [JObj [(''id'', JStr ''a1''), (''FullName'', JStr ''Sara'')], jane, ali]) = 2 \<and>
   get_applicants (fst (post_applicant demo_uuid
        \<lparr>settings_file = Some demo_settings,
         applicants_file = Some (JArr [JObj [(''id'', JStr demo_uuid), (''FullName'', JStr ''Omar'')]])\<rparr>
        (JObj [(''FullName'', JStr ''Sara'')]))) =
     Json 200 (JArr [JObj [(''id'', JStr demo_uuid), (''FullName'', JStr ''Sara'')],
                     JObj [(''id'', JStr demo_uuid), (''FullName'', JStr ''Omar'')]]) \<and>
   length (filter (has_id demo_uuid)
             [JObj [(''id'', JStr demo_uuid), (''FullName'', JStr ''Sara'')],
              JObj [(''id'', JStr demo_uuid), (''FullName'', JStr ''Omar'')]]) = 2"
  by (simp add: post_applicant_def readDB_def spread_def get_applicants_def has_id_def
      field_of_def demo_store_def empty_store_def jane_def ali_def AList.delete_eq Let_def)

text \<open>
  C2 as stated fails for a field set that carries an \<^verbatim>\<open>id\<close> key: updating the record
  \<^verbatim>\<open>b2\<close> with \<^verbatim>\<open>{id: zz}\<close> returns and stores it under the id \<^verbatim>\<open>zz\<close>.
\<close>

theorem update_id_counterexample:
  "put_applicant demo_store ''b2'' (JObj [(''id'', JStr ''zz'')]) =
     (demo_store\<lparr>applicants_file :=
         Some (JArr [jane, JObj [(''id'', JStr ''zz''), (''FullName'', JStr ''Ali''),
                                 (''Documents'', JStr ''not json'')]])\<rparr>,
      Json 200 (JObj [(''id'', JStr ''zz''), (''FullName'', JStr ''Ali''),
                      (''Documents'', JStr ''not json'')]))"
  by (simp add: put_applicant_def readDB_def spread_def demo_defs AList.delete_eq Let_def)

text \<open>
  The amended C2 on the sample store: renaming Ali keeps his id.
\<close>

theorem update_id_witness:
  "applicants_file demo_store = Some (JArr [jane, ali]) \<and>
   list_all (\<lambda>a. a \<noteq> JNull) [jane, ali] \<and>
   list_ex (has_id ''b2'') [jane, ali] \<and>
   (\<exists>n kvs. put_applicant demo_store ''b2'' (JObj [(''FullName'', JStr ''Ali Hassan'')]) =
        (demo_store\<lparr>applicants_file := Some (JArr ([jane, ali][n := JObj kvs]))\<rparr>,
         Json 200 (JObj kvs)) \<and>
      field_of (JObj kvs) ''id'' = Some (JStr ''b2''))"
proof -
  have h1: "applicants_file demo_store = Some (JArr [jane, ali])"
    by (simp add: demo_store_def)
  have h2: "list_all (\<lambda>a. a \<noteq> JNull) [jane, ali]"
    by (simp add: demo_defs)
  have h3: "list_ex (has_id ''b2'') [jane, ali]"
    by (simp add: has_id_def field_of_def demo_defs)
  from update_id [OF h1 h2 h3, of "[(''FullName'', JStr ''Ali Hassan'')]"]
  have "\<exists>n kvs. put_applicant demo_store ''b2'' (JObj [(''FullName'', JStr ''Ali Hassan'')]) =
        (demo_store\<lparr>applicants_file := Some (JArr ([jane, ali][n := JObj kvs]))\<rparr>,
         Json 200 (JObj kvs)) \<and>
      field_of (JObj kvs) ''id'' = Some (JStr ''b2'')"
    by auto
  with h1 h2 h3 show ?thesis by blast
qed

text \<open>
  C3 on the sample store: renaming Ali changes \<^verbatim>\<open>FullName\<close> and keeps
  \<^verbatim>\<open>Documents\<close>; an unknown id gives 404.
\<close>

theorem update_overlay_witness:
  "applicants_file demo_store = Some (JArr [jane, ali]) \<and>
   list_all (\<lambda>a. a \<noteq> JNull) [jane, ali] \<and>
   list_ex (has_id ''b2'') [jane, ali] \<and>
   \<not> list_ex (has_id ''zz'') [jane, ali] \<and>
   (\<exists>n old kvs. [jane, ali] ! n = JObj old \<and>
      put_applicant demo_store ''b2'' (JObj [(''FullName'', JStr ''Ali Hassan'')]) =
        (demo_store\<lparr>applicants_file := Some (JArr ([jane, ali][n := JObj kvs]))\<rparr>,
         Json 200 (JObj kvs)) \<and>
      map_of kvs ''FullName'' = Some (JStr ''Ali Hassan'') \<and>
      map_of kvs ''Documents'' = map_of old ''Documents'') \<and>
   put_applicant demo_store ''zz'' (JObj [(''FullName'', JStr ''Ali Hassan'')]) =
     (demo_store, Json 404 (err ''Applicant not found.''))"
proof -
  have h1: "applicants_file demo_store = Some (JArr [jane, ali])"
    by (simp add: demo_store_def)
  have h2: "list_all (\<lambda>a. a \<noteq> JNull) [jane, ali]"
    by (simp add: demo_defs)
  have h3: "list_ex (has_id ''b2'') [jane, ali]"
    by (simp add: has_id_def field_of_def demo_defs)
  have h4: "\<not> list_ex (has_id ''zz'') [jane, ali]"
    by (simp add: has_id_def field_of_def demo_defs)
  from update_overlay [OF h1 h2, of "''b2''" "[(''FullName'', JStr ''Ali Hassan'')]"] h3
  obtain n old kvs where k: "[jane, ali] ! n = JObj old"
      "put_applicant demo_store ''b2'' (JObj [(''FullName'', JStr ''Ali Hassan'')]) =
        (demo_store\<lparr>applicants_file := Some (JArr ([jane, ali][n := JObj kvs]))\<rparr>,
         Json 200 (JObj kvs))"
      "\<forall>k. map_of kvs k =
         (case map_of [(''FullName'', JStr ''Ali Hassan'')] k of Some v \<Rightarrow> Some v
          | None \<Rightarrow> map_of old k)"
    by auto
  from k(3) have "map_of kvs ''FullName'' = Some (JStr ''Ali Hassan'')"
    "map_of kvs ''Documents'' = map_of old ''Documents''"
    by simp_all
  moreover from update_overlay [OF h1 h2, of "''zz''" _ "JObj [(''FullName'', JStr ''Ali Hassan'')]"] h4
  have "put_applicant demo_store ''zz'' (JObj [(''FullName'', JStr ''Ali Hassan'')]) =
     (demo_store, Json 404 (err ''Applicant not found.''))"
    by simp
  ultimately show ?thesis using h1 h2 h3 h4 k(1,2) by blast
qed

text \<open>
  C4 on the sample store: deleting Jane leaves Ali; an unknown id gives 404.
\<close>

theorem delete_applicant_effect_witness:
  "applicants_file demo_store = Some (JArr [jane, ali]) \<and>
   list_all (\<lambda>a. a \<noteq> JNull) [jane, ali] \<and>
   delete_applicant demo_store ''a1'' =
     (demo_store\<lparr>applicants_file := Some (JArr [ali])\<rparr>,
      Json 200 (msg ''Applicant deleted successfully.'')) \<and>
   get_applicants (fst (delete_applicant demo_store ''a1'')) = Json 200 (JArr [ali]) \<and>
   delete_applicant demo_store ''zz'' = (demo_store, Json 404 (err ''Applicant not found.''))"
proof -
  have h1: "applicants_file demo_store = Some (JArr [jane, ali])"
    by (simp add: demo_store_def)
  have h2: "list_all (\<lambda>a. a \<noteq> JNull) [jane, ali]"
    by (simp add: demo_defs)
  have e: "has_id ''a1'' jane" "\<not> has_id ''a1'' ali" "\<not> has_id ''zz'' jane" "\<not> has_id ''zz'' ali"
    by (simp_all add: has_id_def field_of_def demo_defs)
  have c: "list_ex (has_id ''a1'') [jane, ali]" using e by simp
  have f: "filter (\<lambda>a. \<not> has_id ''a1'' a) [jane, ali] = [ali]" using e by simp
  have d: "\<not> list_ex (has_id ''zz'') [jane, ali]" using e by simp
  note a = delete_applicant_effect [OF h1 h2, of "''a1''", unfolded if_P [OF c] f]
  note b = delete_applicant_effect [OF h1 h2, of "''zz''", unfolded if_not_P [OF d]]
  from a b h1 h2 show ?thesis by blast
qed

text \<open>
  C7 on the sample store: selecting \<^verbatim>\<open>b2\<close> (and an unknown id) exports Ali alone.
\<close>

theorem export_backup_selection_witness:
  "settings_file demo_store = Some demo_settings \<and>
   applicants_file demo_store = Some (JArr [jane, ali]) \<and>
   list_all is_primitive [JStr ''b2'', JStr ''zz''] \<and>
   list_all (\<lambda>a. a \<noteq> JNull) [jane, ali] \<and>
   export_data demo_env demo_store (Some (JStr ''backup'')) None =
     (Backup (JObj [(''settings'', demo_settings), (''applicants'', JArr [jane, ali])]), []) \<and>
   export_data demo_env demo_store (Some (JStr ''backup'')) (Some [JStr ''b2'', JStr ''zz'']) =
     (Backup (JObj [(''settings'', demo_settings), (''applicants'', JArr [ali])]), [])"
proof -
  have h1: "settings_file demo_store = Some demo_settings"
    and h2: "applicants_file demo_store = Some (JArr [jane, ali])"
    by (simp_all add: demo_store_def)
  have h3: "list_all is_primitive [JStr ''b2'', JStr ''zz'']" by simp
  have h4: "list_all (\<lambda>a. a \<noteq> JNull) [jane, ali]" by (simp add: demo_defs)
  have f: "filter (id_member [JStr ''b2'', JStr ''zz'']) [jane, ali] = [ali]"
    by (simp add: id_member_def field_of_def demo_defs)
  from export_backup_selection [OF h1 h2, of demo_env "[JStr ''b2'', JStr ''zz'']"] h3 h4 f
  have "export_data demo_env demo_store (Some (JStr ''backup'')) None =
     (Backup (JObj [(''settings'', demo_settings), (''applicants'', JArr [jane, ali])]), [])"
    "export_data demo_env demo_store (Some (JStr ''backup'')) (Some [JStr ''b2'', JStr ''zz'']) =
     (Backup (JObj [(''settings'', demo_settings), (''applicants'', JArr [ali])]), [])"
    by simp_all
  with h1 h2 h3 h4 show ?thesis by blast
qed

text \<open>
  C6 on the sample store, imported into the empty one.
\<close>

theorem backup_round_trip_witness:
  "export_data demo_env demo_store (Some (JStr ''backup'')) None =
     (Backup (JObj [(''settings'', demo_settings), (''applicants'', JArr [jane, ali])]), []) \<and>
   import_backup empty_store
     (Some (Inr (JObj [(''settings'', demo_settings), (''applicants'', JArr [jane, ali])]))) =
     (demo_store, Json 200 (msg ''Import successful. Application data has been restored.''))"
proof -
  from backup_round_trip [of demo_env "[(''id'', JStr ''settings_1''),
           (''VISA_STEPS'', JArr [JStr ''Offer Letter'', JStr ''Labour Fees''])]" "[jane, ali]" empty_store]
  obtain doc where
    d: "export_data demo_env demo_store (Some (JStr ''backup'')) None = (Backup doc, [])"
       "import_backup empty_store (Some (Inr doc)) =
          (demo_store, Json 200 (msg ''Import successful. Application data has been restored.''))"
    unfolding demo_store_def demo_settings_def by blast
  have "export_data demo_env demo_store (Some (JStr ''backup'')) None =
     (Backup (JObj [(''settings'', demo_settings), (''applicants'', JArr [jane, ali])]), [])"
    by (simp add: export_data_def readDB_def applicantsToExport_def demo_store_def)
  with d show ?thesis by simp
qed

text \<open>
  C8 on the samples: \<^verbatim>\<open>file-2.jpg\<close> is missing, the other two files are bundled, and
  the summary names both applicants.
\<close>

theorem archive_skips_missing_files_witness:
  "settings_file docs_store = Some demo_settings \<and>
   applicants_file docs_store = Some (JArr [jane, omar]) \<and>
   applicantsToExport None (JArr [jane, omar]) = Inr (JArr [jane, omar]) \<and>
   list_all (wf_applicant demo_env) [jane, omar] \<and>
   (\<exists>es. export_data demo_env docs_store (Some (JStr ''zip'')) None =
        (Zip (Append (summary_header @ block jane @ block omar) ''applicant-data.txt'' # es),
         [FileNotFound ''/srv/uploads/file-2.jpg'']) \<and>
      map source es = [Some ''/srv/uploads/file-1.pdf'', Some ''/srv/uploads/file-3.pdf'']) \<and>
   block omar =
     ''Name: Omar'' @ crlf @ ''Passport: N/A'' @ crlf @ ''File Number: N/A'' @ crlf @
     ''UID: N/A'' @ crlf @ ''Email: N/A'' @ crlf @ ''Phone: N/A'' @ crlf @
     ''Nationality: N/A'' @ crlf @ ''-----------------------'' @ crlf"
proof -
  have h1: "settings_file docs_store = Some demo_settings"
    and h2: "applicants_file docs_store = Some (JArr [jane, omar])"
    by (simp_all add: docs_store_def)
  have h3: "applicantsToExport None (JArr [jane, omar]) = Inr (JArr [jane, omar])"
    by (simp add: applicantsToExport_def)
  have dj: "documents demo_env jane =
      Some [JObj [(''name'', JStr ''Passport Scan''), (''url'', JStr ''/uploads/file-1.pdf'')],
            JObj [(''name'', JStr ''Photo''), (''url'', JStr ''/uploads/file-2.jpg'')]]"
    and do: "documents demo_env omar =
      Some [JObj [(''name'', JStr ''Visa''), (''url'', JStr ''/uploads/file-3.pdf'')]]"
    by (simp_all add: documents_def field_of_def jane_def omar_def demo_env_def demo_parse_def)
  have ft: "free_text_fields jane" "free_text_fields omar" "jane \<noteq> JNull" "omar \<noteq> JNull"
    by (simp_all add: free_text_fields_def summary_keys_def free_text_def field_of_def
        jane_def omar_def)
  have h4: "list_all (wf_applicant demo_env) [jane, omar]"
    by (simp add: wf_applicant_def dj do ft wf_doc_def doc_url_def free_text_def field_of_def)
  have r: "concat (map (referenced demo_env) [jane, omar]) =
      [''/srv/uploads/file-1.pdf'', ''/srv/uploads/file-2.jpg'', ''/srv/uploads/file-3.pdf'']"
    by (simp add: referenced_def dj do doc_url_def)
       (simp add: demo_env_def)
  have a: "filter (accessible demo_env)
      [''/srv/uploads/file-1.pdf'', ''/srv/uploads/file-2.jpg'', ''/srv/uploads/file-3.pdf''] =
      [''/srv/uploads/file-1.pdf'', ''/srv/uploads/file-3.pdf'']"
    and b: "filter (\<lambda>p. \<not> accessible demo_env p)
      [''/srv/uploads/file-1.pdf'', ''/srv/uploads/file-2.jpg'', ''/srv/uploads/file-3.pdf''] =
      [''/srv/uploads/file-2.jpg'']"
    by (simp_all add: demo_env_def)
  have o: "block omar =
     ''Name: Omar'' @ crlf @ ''Passport: N/A'' @ crlf @ ''File Number: N/A'' @ crlf @
     ''UID: N/A'' @ crlf @ ''Email: N/A'' @ crlf @ ''Phone: N/A'' @ crlf @
     ''Nationality: N/A'' @ crlf @ ''-----------------------'' @ crlf"
    by (simp add: block_def block_line_def text_of_def field_of_def omar_def)
  from archive_skips_missing_files [OF h1 h2 h3 h4, unfolded r a b]
  have "\<exists>es. export_data demo_env docs_store (Some (JStr ''zip'')) None =
        (Zip (Append (summary_header @ block jane @ block omar) ''applicant-data.txt'' # es),
         [FileNotFound ''/srv/uploads/file-2.jpg'']) \<and>
      map source es = [Some ''/srv/uploads/file-1.pdf'', Some ''/srv/uploads/file-3.pdf'']"
    by auto
  with h1 h2 h3 h4 o show ?thesis by blast
qed


text \<open>
  C9. Setting a settings document replaces the stored one as a whole and leaves the
  applicants file alone; the reply echoes the document, and a get that follows returns
  exactly the submitted document. In particular, whatever sequence was submitted under
  \<^verbatim>\<open>VISA_STEPS\<close> (any permutation of the steps) is the sequence the get returns, in the
  submitted order.
\<close>

theorem settings_set_get:
  "snd (post_settings st body) = Json 200 body \<and>
   settings_file (fst (post_settings st body)) = Some body \<and>
   applicants_file (fst (post_settings st body)) = applicants_file st \<and>
   get_settings (fst (post_settings st body)) = Json 200 body \<and>
   (get_settings (fst (post_settings st (JObj (kvs @ [(''VISA_STEPS'', JArr steps)])))) =
      Json 200 (JObj (kvs @ [(''VISA_STEPS'', JArr steps)])))"
  by (simp add: post_settings_def get_settings_def readDB_def)

end
